theory Spec2Isabelle
  imports Main
begin

section \<open>Values read from documents and requests\<close>

text \<open>
  Document data and request bodies are untyped JavaScript objects. A field that may be
  missing is an \<open>option\<close> (\<open>None\<close> is \<open>undefined\<close>); the JavaScript
  \<open>x || d\<close> and the truthiness tests of the handlers are written out per type.
  Text is a byte string (UTF-8, as the JSON body is sent); a date is the instant it
  denotes, in milliseconds since the epoch, so \<open>toISOString\<close> and the \<open>Date\<close>
  constructor on an ISO text are the identity on instants.
\<close>

datatype jsval = JUndefined | JNull | JBool bool | JNum int | JStr string

type_synonym fields = "(string \<times> jsval) list"

definition or_false :: "bool option \<Rightarrow> bool" where
  \<comment> \<open>\<open>b || false\<close>, and the truthiness of an optional boolean\<close>
  "or_false b = (case b of None \<Rightarrow> False | Some x \<Rightarrow> x)"

definition or_zero :: "int option \<Rightarrow> int" where
  \<comment> \<open>\<open>n || 0\<close>\<close>
  "or_zero n = (case n of None \<Rightarrow> 0 | Some x \<Rightarrow> x)"

definition or_str :: "string option \<Rightarrow> string \<Rightarrow> string" where
  \<comment> \<open>\<open>s || d\<close>: the empty string is falsy\<close>
  "or_str s d = (case s of None \<Rightarrow> d | Some x \<Rightarrow> if x = [] then d else x)"

definition truthy_str :: "string option \<Rightarrow> bool" where
  "truthy_str s = (case s of None \<Rightarrow> False | Some x \<Rightarrow> x \<noteq> [])"

definition js_lt :: "int option \<Rightarrow> int option \<Rightarrow> bool" where
  \<comment> \<open>\<open>a < b\<close> on numbers; a comparison with \<open>undefined\<close> is false\<close>
  "js_lt a b = (case a of None \<Rightarrow> False
                | Some x \<Rightarrow> (case b of None \<Rightarrow> False | Some y \<Rightarrow> x < y))"

definition digitChar :: "nat \<Rightarrow> char" where
  "digitChar k = char_of (of_char CHR ''0'' + k)"

fun decimal :: "nat \<Rightarrow> string" where
  "decimal n = (if n div 10 = 0 then [digitChar n] else decimal (n div 10) @ [digitChar (n mod 10)])"

definition string_of_int :: "int \<Rightarrow> string" where
  \<comment> \<open>an integral number interpolated in a template literal\<close>
  "string_of_int i = (if i < 0 then CHR ''-'' # decimal (nat (- i)) else decimal (nat i))"

definition e_acute :: string where
  "e_acute = [CHR 0xC3, CHR 0xA9]"

definition o_circ :: string where
  "o_circ = [CHR 0xC3, CHR 0xB4]"

section \<open>Data model\<close>

record user_data =
  user_id :: "string option"
  user_email :: string
  user_messageCount :: "int option"
  user_isBanned :: "bool option"
  user_banReason :: "string option"
  user_isSuspended :: "bool option"

record license_data =
  lic_plan :: string
  lic_licenseKey :: "string option"
  lic_expiresAt :: int
  lic_isActive :: "bool option"
  lic_messageCount :: "int option"
  lic_messageLimit :: "int option"
  lic_lastResetDate :: "int option"
  lic_userId :: "string option"

record license_key_data =
  key_key :: string
  key_plan :: string
  key_messageLimit :: "int option"
  key_expiresAt :: "int option"
  key_isActive :: bool
  key_usedBy :: "string option"

record maintenance_config =
  enabled :: "bool option"

text \<open>
  The document store. A collection is the list of its documents (document id and data)
  in the order a query returns them; the sub-documents \<open>users/{id}/license/current\<close>
  and the sub-collections \<open>users/{id}/warnings\<close> are keyed by the path segment
  \<open>{id}\<close>.
\<close>

record db =
  users :: "(string \<times> user_data) list"
  licenses :: "string \<Rightarrow> license_data option"
  warnings_of :: "string \<Rightarrow> (string \<times> fields) list"
  licenseKeys :: "(string \<times> license_key_data) list"
  config_maintenance :: "maintenance_config option"

record request =
  req_email :: "string option"
  req_licenseKey :: "string option"
  req_deviceId :: "string option"

datatype alert_type = Modal | Banner

datatype alert_severity = Critical | Warning

record alert =
  alert_type :: alert_type
  title :: string
  message :: string
  severity :: alert_severity
  dismissible :: bool

record verdict =
  valid :: bool
  plan :: string
  messageLimit :: int
  messageCount :: int
  canSendMessage :: bool
  expiresAt :: int
  warnings :: "fields list"
  isBanned :: bool
  isSuspended :: bool
  alerts :: "alert list"
  maintenanceMode :: bool

text \<open>
  A response is the verdict (status 200) or an error body: the status code, the
  \<open>valid\<close> field when the body has one, and the \<open>error\<close> text.
\<close>

datatype response = Json verdict | Failure nat "bool option" string

definition verdictOf :: "db \<times> response \<Rightarrow> verdict option" where
  \<comment> \<open>the verdict a handler sent, if it sent one\<close>
  "verdictOf r = (case snd r of Json v \<Rightarrow> Some v | Failure st vl err \<Rightarrow> None)"

section \<open>The license helpers\<close>

datatype invalid_reason = ReasonBanned | ReasonSuspended | ReasonExpired | ReasonLimit

record validation =
  validation_valid :: bool
  validation_reason :: "invalid_reason option"

definition isLicenseExpired :: "int \<Rightarrow> int \<Rightarrow> bool" where
  \<comment> \<open>Modelled from the spec: \<open>lib/licenseUtils\<close> is missing; "true iff now > expiresAt".\<close>
  "isLicenseExpired expAt now = (now > expAt)"

definition msPerDay :: int where
  "msPerDay = 24 * 60 * 60 * 1000"

definition getDaysRemaining :: "int \<Rightarrow> int \<Rightarrow> int" where
  \<comment> \<open>Modelled from the spec: \<open>lib/licenseUtils\<close> is missing; "ceiling of
      (expiresAt - now) in whole days; negative/zero when expired".\<close>
  "getDaysRemaining expAt now = - ((now - expAt) div msPerDay)"

definition validateLicense ::
  "(string \<Rightarrow> int option) \<Rightarrow> int \<Rightarrow> string \<Rightarrow> int \<Rightarrow> int \<Rightarrow> bool \<Rightarrow> bool \<Rightarrow> validation" where
  \<comment> \<open>Modelled from the spec: \<open>lib/licenseUtils\<close> is missing; "valid is false if banned,
      suspended, expired (and plan is a paid tier), or messageCount >= messageLimit when a
      limit applies; otherwise true". The helper is not passed a limit: the limit that
      applies to a plan is the parameter \<open>planLimit\<close>.\<close>
  "validateLicense planLimit now p count expAt banned suspended =
     (if banned then \<lparr>validation_valid = False, validation_reason = Some ReasonBanned\<rparr>
      else if suspended then \<lparr>validation_valid = False, validation_reason = Some ReasonSuspended\<rparr>
      else if isLicenseExpired expAt now \<and> p \<noteq> ''Gratuit''
        then \<lparr>validation_valid = False, validation_reason = Some ReasonExpired\<rparr>
      else (case planLimit p of
              None \<Rightarrow> \<lparr>validation_valid = True, validation_reason = None\<rparr>
            | Some lim \<Rightarrow>
                if count \<ge> lim then \<lparr>validation_valid = False, validation_reason = Some ReasonLimit\<rparr>
                else \<lparr>validation_valid = True, validation_reason = None\<rparr>))"

section \<open>Store operations\<close>

definition getDocs_users :: "db \<Rightarrow> string \<Rightarrow> (string \<times> user_data) list" where
  \<comment> \<open>\<open>query(collection(db, "users"), where("email", "==", email))\<close>\<close>
  "getDocs_users d email = filter (\<lambda>(i, u). user_email u = email) (users d)"

definition getDocs_warnings :: "db \<Rightarrow> string \<Rightarrow> (string \<times> fields) list" where
  \<comment> \<open>\<open>query(collection(db, "users", id, "warnings"), where("isRead", "==", false))\<close>\<close>
  "getDocs_warnings d i = filter (\<lambda>(w, fs). map_of fs ''isRead'' = Some (JBool False)) (warnings_of d i)"

fun spread :: "fields \<Rightarrow> fields \<Rightarrow> fields" where
  \<comment> \<open>\<open>{...acc, ...fs}\<close>: a later field replaces an earlier one of the same name\<close>
  "spread acc [] = acc"
| "spread acc ((k, v) # fs) =
     spread (if k \<in> set (map fst acc) then map (\<lambda>(k', v'). if k' = k then (k', v) else (k', v')) acc
             else acc @ [(k, v)]) fs"

definition getMaintenanceMode :: "db \<Rightarrow> bool" where
  \<comment> \<open>\<open>configSnapshot.data()?.enabled || false\<close>\<close>
  "getMaintenanceMode d =
     (case config_maintenance d of None \<Rightarrow> False | Some c \<Rightarrow> or_false (enabled c))"

section \<open>handleLicenseVerify\<close>

definition expiredAlert :: alert where
  "expiredAlert =
     \<lparr>alert_type = Modal,
      title = ''Licence Expir'' @ e_acute @ ''e'',
      message = ''Votre licence a expir'' @ e_acute @ ''. Veuillez renouveler votre abonnement.'',
      severity = Critical,
      dismissible = False\<rparr>"

definition expiresSoonAlert :: "int \<Rightarrow> alert" where
  "expiresSoonAlert daysRemaining =
     \<lparr>alert_type = Banner,
      title = ''Licence Expires Bient'' @ o_circ @ ''t'',
      message = ''Votre licence expire dans '' @ string_of_int daysRemaining @ '' jour(s).'',
      severity = Warning,
      dismissible = True\<rparr>"

definition bannedAlert :: "string option \<Rightarrow> alert" where
  "bannedAlert banReason =
     \<lparr>alert_type = Modal,
      title = ''Compte Banni'',
      message = ''Votre compte a '' @ e_acute @ ''t'' @ e_acute @ '' banni. Raison: ''
                @ or_str banReason (''Non sp'' @ e_acute @ ''cifi'' @ e_acute @ ''e''),
      severity = Critical,
      dismissible = False\<rparr>"

definition suspendedAlert :: alert where
  "suspendedAlert =
     \<lparr>alert_type = Modal,
      title = ''Compte Suspendu'',
      message = ''Votre compte a '' @ e_acute @ ''t'' @ e_acute @ '' temporairement suspendu.'',
      severity = Critical,
      dismissible = False\<rparr>"

definition verifyAlerts :: "user_data \<Rightarrow> license_data \<Rightarrow> bool \<Rightarrow> int \<Rightarrow> alert list" where
  \<comment> \<open>the three pushes onto \<open>alerts\<close>, in order\<close>
  "verifyAlerts userData licenseData isExpired daysRemaining =
     (if isExpired \<and> lic_plan licenseData \<noteq> ''Gratuit'' then [expiredAlert]
      else if daysRemaining \<le> 7 \<and> daysRemaining > 0 then [expiresSoonAlert daysRemaining]
      else [])
     @ (if or_false (user_isBanned userData) then [bannedAlert (user_banReason userData)] else [])
     @ (if or_false (user_isSuspended userData) then [suspendedAlert] else [])"

definition freeVerdict :: "db \<Rightarrow> int \<Rightarrow> user_data \<Rightarrow> verdict" where
  \<comment> \<open>the body sent when the user has no license document\<close>
  "freeVerdict d now userData =
     \<lparr>valid = False,
      plan = ''Gratuit'',
      messageLimit = 10,
      messageCount = or_zero (user_messageCount userData),
      canSendMessage = (or_zero (user_messageCount userData) < 10),
      expiresAt = now + 365 * 24 * 60 * 60 * 1000,
      warnings = [],
      isBanned = or_false (user_isBanned userData),
      isSuspended = or_false (user_isSuspended userData),
      alerts = [],
      maintenanceMode = getMaintenanceMode d\<rparr>"

definition licensedVerdict ::
  "(string \<Rightarrow> int option) \<Rightarrow> db \<Rightarrow> int \<Rightarrow> string \<Rightarrow> user_data \<Rightarrow> license_data \<Rightarrow> verdict" where
  \<comment> \<open>the body sent when the license document exists; \<open>pathId\<close> is the path segment
      \<open>userData.id || userRef?.id || ""\<close>\<close>
  "licensedVerdict planLimit d now pathId userData licenseData =
     (let isExpired = isLicenseExpired (lic_expiresAt licenseData) now;
          daysRemaining = getDaysRemaining (lic_expiresAt licenseData) now;
          validation = validateLicense planLimit now
            (lic_plan licenseData)
            (or_zero (lic_messageCount licenseData))
            (lic_expiresAt licenseData)
            (or_false (user_isBanned userData))
            (or_false (user_isSuspended userData));
          ws = map (\<lambda>(w, fs). spread [(''id'', JStr w)] fs) (getDocs_warnings d pathId)
      in \<lparr>valid = validation_valid validation,
          plan = lic_plan licenseData,
          messageLimit = or_zero (lic_messageLimit licenseData),
          messageCount = or_zero (lic_messageCount licenseData),
          canSendMessage =
            (validation_valid validation
             \<and> js_lt (lic_messageCount licenseData) (lic_messageLimit licenseData)
             \<and> \<not> isExpired),
          expiresAt = lic_expiresAt licenseData,
          warnings = ws,
          isBanned = or_false (user_isBanned userData),
          isSuspended = or_false (user_isSuspended userData),
          alerts = verifyAlerts userData licenseData isExpired daysRemaining,
          maintenanceMode = getMaintenanceMode d\<rparr>)"

definition licensePathId :: "string \<Rightarrow> user_data \<Rightarrow> string" where
  \<comment> \<open>\<open>userData.id || userRef?.id || ""\<close>, the segment of the license and warnings paths\<close>
  "licensePathId docId userData = or_str (Some (or_str (user_id userData) docId)) []"

definition handleLicenseVerify ::
  "(string \<Rightarrow> int option) \<Rightarrow> db \<Rightarrow> int \<Rightarrow> request \<Rightarrow> db \<times> response" where
  "handleLicenseVerify planLimit d now req =
     (if \<not> truthy_str (req_email req) \<or> \<not> truthy_str (req_deviceId req)
      then (d, Failure 400 (Some False) ''Email and device ID are required'')
      else
        (case getDocs_users d (or_str (req_email req) []) of
           [] \<Rightarrow> (d, Failure 404 (Some False) ''User not found'')
         | (docId, userData) # _ \<Rightarrow>
             (let pathId = licensePathId docId userData
              in case licenses d pathId of
                   None \<Rightarrow> (d, Json (freeVerdict d now userData))
                 | Some licenseData \<Rightarrow>
                     (d, Json (licensedVerdict planLimit d now pathId userData licenseData)))))"

section \<open>handleLicenseActivate\<close>

datatype store_error = NotFound

definition cleanLicenseKey :: "(string \<Rightarrow> string) \<Rightarrow> string \<Rightarrow> string" where
  \<comment> \<open>\<open>licenseKey.replace(/-/g, "").toUpperCase()\<close>; JavaScript's own
      \<open>toUpperCase\<close>, which maps the letters of every script, is a parameter\<close>
  "cleanLicenseKey toUpperCase licenseKey = toUpperCase (filter (\<lambda>c. c \<noteq> CHR ''-'') licenseKey)"

definition maxTimeValue :: int where
  \<comment> \<open>the largest time value of a JavaScript \<open>Date\<close>, in milliseconds\<close>
  "maxTimeValue = 8640000000000000"

definition newDate :: "int option \<Rightarrow> int option" where
  \<comment> \<open>\<open>new Date(v)\<close>: \<open>None\<close> is an invalid date, for a stored value that denotes no
      instant or one out of range; \<open>toISOString\<close> throws on it\<close>
  "newDate v =
     (case v of
        None \<Rightarrow> None
      | Some t \<Rightarrow> if - maxTimeValue \<le> t \<and> t \<le> maxTimeValue then Some t else None)"

definition getDocs_licenseKeys :: "db \<Rightarrow> string \<Rightarrow> (string \<times> license_key_data) list" where
  \<comment> \<open>\<open>where("key", "==", licenseKeyClean), where("isActive", "==", true)\<close>\<close>
  "getDocs_licenseKeys d k = filter (\<lambda>(i, kd). key_key kd = k \<and> key_isActive kd) (licenseKeys d)"

definition updateDoc_license ::
  "db \<Rightarrow> string \<Rightarrow> (license_data \<Rightarrow> license_data) \<Rightarrow> store_error + db" where
  \<comment> \<open>\<open>updateDoc\<close> merges the given fields into an existing document and fails on a
      missing one\<close>
  "updateDoc_license d i upd =
     (case licenses d i of
        None \<Rightarrow> Inl NotFound
      | Some l \<Rightarrow> Inr (d\<lparr>licenses := (licenses d)(i \<mapsto> upd l)\<rparr>))"

definition setDoc_license :: "db \<Rightarrow> string \<Rightarrow> license_data \<Rightarrow> db" where
  "setDoc_license d i l = d\<lparr>licenses := (licenses d)(i \<mapsto> l)\<rparr>"

fun update_first ::
  "string \<Rightarrow> (user_data \<Rightarrow> user_data) \<Rightarrow> (string \<times> user_data) list
     \<Rightarrow> (string \<times> user_data) list option" where
  "update_first i upd [] = None"
| "update_first i upd ((j, u) # xs) =
     (if j = i then Some ((j, upd u) # xs)
      else map_option (\<lambda>ys. (j, u) # ys) (update_first i upd xs))"

definition updateDoc_user ::
  "db \<Rightarrow> string \<Rightarrow> (user_data \<Rightarrow> user_data) \<Rightarrow> store_error + db" where
  "updateDoc_user d i upd =
     (case update_first i upd (users d) of
        None \<Rightarrow> Inl NotFound
      | Some us \<Rightarrow> Inr (d\<lparr>users := us\<rparr>))"

definition activatedVerdict :: "db \<Rightarrow> license_key_data \<Rightarrow> int \<Rightarrow> verdict" where
  \<comment> \<open>the body sent after the two writes\<close>
  "activatedVerdict d licenseKeyData expAt =
     \<lparr>valid = True,
      plan = key_plan licenseKeyData,
      messageLimit = or_zero (key_messageLimit licenseKeyData),
      messageCount = 0,
      canSendMessage = True,
      expiresAt = expAt,
      warnings = [],
      isBanned = False,
      isSuspended = False,
      alerts = [],
      maintenanceMode = getMaintenanceMode d\<rparr>"

definition handleLicenseActivate ::
  "(string \<Rightarrow> string) \<Rightarrow> db \<Rightarrow> int \<Rightarrow> request \<Rightarrow> db \<times> response" where
  \<comment> \<open>on an invalid date \<open>expiresAt.toISOString()\<close> throws while the first write's
      argument is built, and the handler's \<open>catch\<close> answers 500\<close>
  "handleLicenseActivate toUpperCase d now req =
     (if \<not> truthy_str (req_email req) \<or> \<not> truthy_str (req_licenseKey req)
         \<or> \<not> truthy_str (req_deviceId req)
      then (d, Failure 400 None ''Email, license key, and device ID are required'')
      else
        (case getDocs_users d (or_str (req_email req) []) of
           [] \<Rightarrow> (d, Failure 404 None ''User not found'')
         | (userId, userData) # _ \<Rightarrow>
             (let licenseKeyClean = cleanLicenseKey toUpperCase (or_str (req_licenseKey req) [])
              in case getDocs_licenseKeys d licenseKeyClean of
                   [] \<Rightarrow> (d, Failure 404 None ''Invalid or inactive license key'')
                 | (keyId, licenseKeyData) # _ \<Rightarrow>
                     if truthy_str (key_usedBy licenseKeyData)
                        \<and> key_usedBy licenseKeyData \<noteq> Some userId
                     then (d, Failure 403 None
                             ''This license key is already in use by another account'')
                     else
                       (case newDate (key_expiresAt licenseKeyData) of
                          None \<Rightarrow> (d, Failure 500 None ''License activation failed'')
                        | Some expAt \<Rightarrow>
                            (let d1 =
                               (case updateDoc_license d userId
                                  (\<lambda>l. l\<lparr>lic_plan := key_plan licenseKeyData,
                                          lic_licenseKey := Some licenseKeyClean,
                                          lic_expiresAt := expAt,
                                          lic_isActive := Some True,
                                          lic_messageCount := Some 0,
                                          lic_messageLimit := Some (or_zero (key_messageLimit licenseKeyData)),
                                          lic_lastResetDate := Some now\<rparr>) of
                                  Inr d' \<Rightarrow> d'
                                | Inl _ \<Rightarrow>
                                    setDoc_license d userId
                                      \<lparr>lic_plan = key_plan licenseKeyData,
                                       lic_licenseKey = Some licenseKeyClean,
                                       lic_expiresAt = expAt,
                                       lic_isActive = Some True,
                                       lic_messageCount = Some 0,
                                       lic_messageLimit = Some (or_zero (key_messageLimit licenseKeyData)),
                                       lic_lastResetDate = Some now,
                                       lic_userId = Some userId\<rparr>)
                             in case updateDoc_user d1 userId
                                  (\<lambda>u. u\<lparr>user_isBanned := Some False, user_isSuspended := Some False\<rparr>) of
                                  Inl _ \<Rightarrow> (d1, Failure 500 None ''License activation failed'')
                                | Inr d2 \<Rightarrow> (d2, Json (activatedVerdict d2 licenseKeyData expAt)))))))"

section \<open>Admin identity checks\<close>

datatype auth_error = AuthError string

record decoded_token =
  token_uid :: string
  token_email :: "string option"
  token_customClaims :: "fields option"

record user_record =
  record_uid :: string
  record_customClaims :: "fields option"

record admin_result =
  isAdmin :: bool
  uid :: "string option"
  email :: "string option"

definition adminClaim :: "fields option \<Rightarrow> bool" where
  \<comment> \<open>\<open>(customClaims || {}).admin === true\<close>\<close>
  "adminClaim claims =
     (case claims of None \<Rightarrow> False | Some fs \<Rightarrow> map_of fs ''admin'' = Some (JBool True))"

definition verifyAdminToken_try ::
  "(string \<Rightarrow> auth_error + decoded_token) \<Rightarrow> string option \<Rightarrow> auth_error + admin_result" where
  \<comment> \<open>the \<open>try\<close> block; \<open>verifyIdToken\<close> is the identity provider's call, which returns
      the decoded token or throws\<close>
  "verifyAdminToken_try verifyIdToken authorization =
     (case authorization of
        None \<Rightarrow> Inr \<lparr>isAdmin = False, uid = None, email = None\<rparr>
      | Some authHeader \<Rightarrow>
          if authHeader = [] \<or> take 7 authHeader \<noteq> ''Bearer ''
          then Inr \<lparr>isAdmin = False, uid = None, email = None\<rparr>
          else
            (case verifyIdToken (drop 7 authHeader) of
               Inl err \<Rightarrow> Inl err
             | Inr decodedToken \<Rightarrow>
                 Inr \<lparr>isAdmin = adminClaim (token_customClaims decodedToken),
                      uid = Some (token_uid decodedToken),
                      email = token_email decodedToken\<rparr>))"

definition verifyAdminToken ::
  "(string \<Rightarrow> auth_error + decoded_token) \<Rightarrow> string option \<Rightarrow> auth_error + admin_result" where
  \<comment> \<open>the \<open>catch\<close> block turns every exception into a result\<close>
  "verifyAdminToken verifyIdToken authorization =
     (case verifyAdminToken_try verifyIdToken authorization of
        Inl err \<Rightarrow> Inr \<lparr>isAdmin = False, uid = None, email = None\<rparr>
      | Inr r \<Rightarrow> Inr r)"

definition isAdminUser_try ::
  "(string \<Rightarrow> auth_error + user_record) \<Rightarrow> string \<Rightarrow> auth_error + bool" where
  "isAdminUser_try getUser u =
     (case getUser u of
        Inl err \<Rightarrow> Inl err
      | Inr userRecord \<Rightarrow> Inr (adminClaim (record_customClaims userRecord)))"

definition isAdminUser ::
  "(string \<Rightarrow> auth_error + user_record) \<Rightarrow> string \<Rightarrow> auth_error + bool" where
  "isAdminUser getUser u =
     (case isAdminUser_try getUser u of Inl err \<Rightarrow> Inr False | Inr b \<Rightarrow> Inr b)"

section \<open>Example stores and requests\<close>

definition exUser :: user_data where
  "exUser = \<lparr>user_id = None, user_email = ''a@b.c'', user_messageCount = Some 3,
             user_isBanned = None, user_banReason = None, user_isSuspended = None\<rparr>"

definition exBannedUser :: user_data where
  "exBannedUser = exUser\<lparr>user_isBanned := Some True\<rparr>"

definition exLicense :: license_data where
  "exLicense = \<lparr>lic_plan = ''Pro'', lic_licenseKey = Some ''ABCD1234'',
                lic_expiresAt = 7 * msPerDay, lic_isActive = Some True,
                lic_messageCount = Some 5, lic_messageLimit = Some 100,
                lic_lastResetDate = Some 0, lic_userId = Some ''u1''\<rparr>"

definition exKey :: license_key_data where
  "exKey = \<lparr>key_key = ''ABCD1234'', key_plan = ''Pro'', key_messageLimit = Some 100,
            key_expiresAt = Some (30 * msPerDay), key_isActive = True, key_usedBy = None\<rparr>"

definition exUsedKey :: license_key_data where
  "exUsedKey = exKey\<lparr>key_usedBy := Some ''u2''\<rparr>"

definition noWarnings :: "string \<Rightarrow> (string \<times> fields) list" where
  "noWarnings i = []"

definition exDb :: db where
  "exDb = \<lparr>users = [(''u1'', exUser)], licenses = Map.empty, warnings_of = noWarnings,
           licenseKeys = [(''k1'', exKey)], config_maintenance = None\<rparr>"

definition exLicensedDb :: db where
  "exLicensedDb = exDb\<lparr>licenses := [''u1'' \<mapsto> exLicense]\<rparr>"

definition exBannedDb :: db where
  "exBannedDb = exDb\<lparr>users := [(''u1'', exBannedUser)]\<rparr>"

definition exBannedLicensedDb :: db where
  "exBannedLicensedDb = exLicensedDb\<lparr>users := [(''u1'', exBannedUser)]\<rparr>"

definition exUsedKeyDb :: db where
  "exUsedKeyDb = exDb\<lparr>licenseKeys := [(''k1'', exUsedKey)]\<rparr>"

definition exReq :: request where
  "exReq = \<lparr>req_email = Some ''a@b.c'', req_licenseKey = Some ''abcd-1234'',
            req_deviceId = Some ''dev''\<rparr>"

definition exUser2 :: user_data where
  "exUser2 = exUser\<lparr>user_email := ''x@y.z''\<rparr>"

definition exTwoUsersDb :: db where
  "exTwoUsersDb = exDb\<lparr>users := [(''u1'', exUser), (''u2'', exUser2)]\<rparr>"

definition exReq2 :: request where
  "exReq2 = \<lparr>req_email = Some ''x@y.z'', req_licenseKey = Some ''ABCD-1234'',
             req_deviceId = Some ''dev2''\<rparr>"

definition exNoCountLicense :: license_data where
  "exNoCountLicense = exLicense\<lparr>lic_messageCount := None\<rparr>"

definition exNoCountDb :: db where
  "exNoCountDb = exDb\<lparr>licenses := [''u1'' \<mapsto> exNoCountLicense]\<rparr>"

definition exOtherDb :: db where
  \<comment> \<open>as \<open>exLicensedDb\<close> for the first user; another user, another license, no keys\<close>
  "exOtherDb = \<lparr>users = [(''u1'', exUser), (''u2'', exUser2)],
                licenses = [''u1'' \<mapsto> exLicense, ''u2'' \<mapsto> exNoCountLicense],
                warnings_of = noWarnings, licenseKeys = [], config_maintenance = None\<rparr>"

definition asciiUpperCase :: "string \<Rightarrow> string" where
  \<comment> \<open>what \<open>toUpperCase\<close> does on ASCII text\<close>
  "asciiUpperCase s =
     map (\<lambda>c. if 97 \<le> (of_char c :: nat) \<and> (of_char c :: nat) \<le> 122
               then char_of ((of_char c :: nat) - 32) else c) s"

definition exLimits :: "string \<Rightarrow> int option" where
  "exLimits p = (if p = ''Pro'' then Some 100 else None)"

definition exVerifyIdToken :: "string \<Rightarrow> auth_error + decoded_token" where
  "exVerifyIdToken token =
     (if token = ''good''
      then Inr \<lparr>token_uid = ''u1'', token_email = Some ''a@b.c'',
                token_customClaims = Some [(''admin'', JBool True)]\<rparr>
      else Inl (AuthError ''auth/argument-error''))"

definition exGetUser :: "string \<Rightarrow> auth_error + user_record" where
  "exGetUser u =
     (if u = ''u1''
      then Inr \<lparr>record_uid = ''u1'', record_customClaims = Some [(''admin'', JBool True)]\<rparr>
      else Inl (AuthError ''auth/user-not-found''))"

section \<open>Properties of handleLicenseVerify\<close>

lemma verify_no_license:
  assumes "req_email req = Some e" "e \<noteq> []" "req_deviceId req = Some dv" "dv \<noteq> []"
    and "getDocs_users d e = (docId, userData) # rest"
    and "licenses d (licensePathId docId userData) = None"
  shows "handleLicenseVerify planLimit d now req = (d, Json (freeVerdict d now userData))"
  using assms by (simp add: handleLicenseVerify_def truthy_str_def or_str_def)

lemma verify_with_license:
  assumes "req_email req = Some e" "e \<noteq> []" "req_deviceId req = Some dv" "dv \<noteq> []"
    and "getDocs_users d e = (docId, userData) # rest"
    and "licenses d (licensePathId docId userData) = Some licenseData"
  shows "handleLicenseVerify planLimit d now req =
           (d, Json (licensedVerdict planLimit d now (licensePathId docId userData) userData licenseData))"
  using assms by (simp add: handleLicenseVerify_def truthy_str_def or_str_def)

lemma verify_keeps_store: "fst (handleLicenseVerify planLimit d now req) = d"
  by (simp add: handleLicenseVerify_def Let_def split: list.splits option.splits prod.splits)

text \<open>
  C4. A request with an email and a device id, for an existing user whose license
  document is missing, is answered with the synthesized free-tier verdict: plan
  "Gratuit", limit 10, the user's own counter (0 when absent), \<open>canSendMessage\<close> exactly
  when that counter is below 10, expiry 365 days after now, no warnings, no alerts, and
  the user's ban and suspension flags. The store is returned as it was.
\<close>

theorem free_tier_verdict:
  assumes "req_email req = Some e" "e \<noteq> []" "req_deviceId req = Some dv" "dv \<noteq> []"
    and "getDocs_users d e = (docId, userData) # rest"
    and "licenses d (licensePathId docId userData) = None"
  shows "handleLicenseVerify planLimit d now req =
           (d, Json \<lparr>valid = False,
                     plan = ''Gratuit'',
                     messageLimit = 10,
                     messageCount = or_zero (user_messageCount userData),
                     canSendMessage = (or_zero (user_messageCount userData) < 10),
                     expiresAt = now + 365 * msPerDay,
                     warnings = [],
                     isBanned = or_false (user_isBanned userData),
                     isSuspended = or_false (user_isSuspended userData),
                     alerts = [],
                     maintenanceMode = getMaintenanceMode d\<rparr>)"
  using verify_no_license[OF assms] by (simp add: freeVerdict_def msPerDay_def)

theorem free_tier_verdict_witness:
  "handleLicenseVerify exLimits exDb 1000 exReq =
     (exDb, Json \<lparr>valid = False, plan = ''Gratuit'', messageLimit = 10, messageCount = 3,
                  canSendMessage = True, expiresAt = 31536001000, warnings = [],
                  isBanned = False, isSuspended = False, alerts = [],
                  maintenanceMode = False\<rparr>)"
  using free_tier_verdict[of exReq "''a@b.c''" "''dev''" exDb "''u1''" exUser "[]" exLimits 1000]
  by (simp add: exReq_def exDb_def exUser_def getDocs_users_def licensePathId_def or_str_def
      or_zero_def or_false_def getMaintenanceMode_def msPerDay_def)

text \<open>
  C10. The synthesized verdict of a user without a license document always has
  \<open>valid = False\<close>, whatever the user's flags and counter, while \<open>canSendMessage\<close>
  holds exactly when the counter is below 10 (so the two can disagree).
\<close>

theorem synthesized_verdict_invalid:
  assumes "req_email req = Some e" "e \<noteq> []" "req_deviceId req = Some dv" "dv \<noteq> []"
    and "getDocs_users d e = (docId, userData) # rest"
    and "licenses d (licensePathId docId userData) = None"
  shows "\<exists>v. handleLicenseVerify planLimit d now req = (d, Json v) \<and> \<not> valid v
           \<and> (canSendMessage v \<longleftrightarrow> or_zero (user_messageCount userData) < 10)"
  using verify_no_license[OF assms] by (simp add: freeVerdict_def)

theorem synthesized_verdict_invalid_witness:
  "or_false (user_isBanned exUser) = False \<and> or_false (user_isSuspended exUser) = False
   \<and> or_zero (user_messageCount exUser) < 10
   \<and> (\<exists>v. handleLicenseVerify exLimits exDb 1000 exReq = (exDb, Json v) \<and> \<not> valid v
           \<and> canSendMessage v)"
  using synthesized_verdict_invalid[of exReq "''a@b.c''" "''dev''" exDb "''u1''" exUser "[]" exLimits 1000]
  by (simp add: exReq_def exDb_def exUser_def getDocs_users_def licensePathId_def or_str_def
      or_zero_def or_false_def)

text \<open>
  C1 as stated fails for a banned user without a license document: the synthesized
  verdict has an empty alert list.
\<close>

theorem verify_banned_no_license_counterexample:
  "user_isBanned exBannedUser = Some True
   \<and> map_option alerts (verdictOf (handleLicenseVerify exLimits exBannedDb 1000 exReq)) = Some []"
  by (simp add: verdictOf_def handleLicenseVerify_def exReq_def exBannedDb_def exDb_def
      exBannedUser_def exUser_def getDocs_users_def licensePathId_def or_str_def truthy_str_def
      freeVerdict_def)

lemma bannedAlert_in_verifyAlerts:
  "or_false (user_isBanned userData) \<Longrightarrow>
     bannedAlert (user_banReason userData) \<in> set (verifyAlerts userData licenseData ex dr)"
  by (simp add: verifyAlerts_def)

text \<open>
  C1, amended. For a user with \<open>isBanned = true\<close> who has a license document, the
  verdict contains the banned alert, whatever the license holds: a critical modal that
  cannot be dismissed, whose message ends with the ban reason, or with the default
  text when the reason is absent or empty.
\<close>

theorem verify_banned_alert:
  assumes "req_email req = Some e" "e \<noteq> []" "req_deviceId req = Some dv" "dv \<noteq> []"
    and "getDocs_users d e = (docId, userData) # rest"
    and "licenses d (licensePathId docId userData) = Some licenseData"
    and "user_isBanned userData = Some True"
  shows "\<exists>v. handleLicenseVerify planLimit d now req = (d, Json v)
           \<and> bannedAlert (user_banReason userData) \<in> set (alerts v)
           \<and> alert_type (bannedAlert (user_banReason userData)) = Modal
           \<and> severity (bannedAlert (user_banReason userData)) = Critical
           \<and> \<not> dismissible (bannedAlert (user_banReason userData))
           \<and> message (bannedAlert (user_banReason userData)) =
               ''Votre compte a '' @ e_acute @ ''t'' @ e_acute @ '' banni. Raison: ''
               @ (case user_banReason userData of
                    None \<Rightarrow> ''Non sp'' @ e_acute @ ''cifi'' @ e_acute @ ''e''
                  | Some r \<Rightarrow> if r = [] then ''Non sp'' @ e_acute @ ''cifi'' @ e_acute @ ''e'' else r)"
proof -
  have banned: "or_false (user_isBanned userData)"
    using assms(7) by (simp add: or_false_def)
  have "bannedAlert (user_banReason userData)
          \<in> set (alerts (licensedVerdict planLimit d now (licensePathId docId userData) userData licenseData))"
    using bannedAlert_in_verifyAlerts[OF banned] by (simp add: licensedVerdict_def Let_def)
  moreover have "message (bannedAlert (user_banReason userData)) =
               ''Votre compte a '' @ e_acute @ ''t'' @ e_acute @ '' banni. Raison: ''
               @ (case user_banReason userData of
                    None \<Rightarrow> ''Non sp'' @ e_acute @ ''cifi'' @ e_acute @ ''e''
                  | Some r \<Rightarrow> if r = [] then ''Non sp'' @ e_acute @ ''cifi'' @ e_acute @ ''e'' else r)"
    by (simp add: bannedAlert_def or_str_def split: option.splits)
  ultimately show ?thesis
    using verify_with_license[OF assms(1-6)] by (simp add: bannedAlert_def)
qed

theorem verify_banned_alert_witness:
  "\<exists>v. handleLicenseVerify exLimits exBannedLicensedDb 1000 exReq = (exBannedLicensedDb, Json v)
       \<and> bannedAlert None \<in> set (alerts v)
       \<and> message (bannedAlert None) =
           ''Votre compte a '' @ e_acute @ ''t'' @ e_acute @ '' banni. Raison: Non sp''
           @ e_acute @ ''cifi'' @ e_acute @ ''e''"
  using verify_banned_alert[of exReq "''a@b.c''" "''dev''" exBannedLicensedDb "''u1''" exBannedUser "[]"
      exLicense exLimits 1000]
  by (auto simp add: exReq_def exBannedLicensedDb_def exLicensedDb_def exDb_def exBannedUser_def
      exUser_def getDocs_users_def licensePathId_def or_str_def)

lemma expiredAlert_in_verifyAlerts:
  "ex \<Longrightarrow> lic_plan licenseData \<noteq> ''Gratuit'' \<Longrightarrow>
     expiredAlert \<in> set (verifyAlerts userData licenseData ex dr)"
  by (simp add: verifyAlerts_def)

lemma validateLicense_expired:
  "isLicenseExpired expAt now \<Longrightarrow> p \<noteq> ''Gratuit'' \<Longrightarrow>
     \<not> validation_valid (validateLicense planLimit now p c expAt b s)"
  by (simp add: validateLicense_def)

text \<open>
  C3. For a license whose plan is not "Gratuit" and whose expiry is before now, the
  verdict has \<open>valid = False\<close> and its alerts contain the "license expired" alert:
  a critical modal that cannot be dismissed, with the title and the message of the
  source, spelled out here (the accented letter as its two UTF-8 bytes).
\<close>

theorem verify_expired_paid:
  assumes "req_email req = Some e" "e \<noteq> []" "req_deviceId req = Some dv" "dv \<noteq> []"
    and "getDocs_users d e = (docId, userData) # rest"
    and "licenses d (licensePathId docId userData) = Some licenseData"
    and "lic_plan licenseData \<noteq> ''Gratuit''"
    and "now > lic_expiresAt licenseData"
  shows "\<exists>v. handleLicenseVerify planLimit d now req = (d, Json v)
           \<and> \<not> valid v
           \<and> \<lparr>alert_type = Modal,
               title = ''Licence Expir'' @ [CHR 0xC3, CHR 0xA9] @ ''e'',
               message = ''Votre licence a expir'' @ [CHR 0xC3, CHR 0xA9]
                         @ ''. Veuillez renouveler votre abonnement.'',
               severity = Critical,
               dismissible = False\<rparr> \<in> set (alerts v)"
proof -
  let ?v = "licensedVerdict planLimit d now (licensePathId docId userData) userData licenseData"
  have ex: "isLicenseExpired (lic_expiresAt licenseData) now"
    using assms(8) by (simp add: isLicenseExpired_def)
  have "\<not> valid ?v"
    using validateLicense_expired[OF ex assms(7)] by (simp add: licensedVerdict_def Let_def)
  moreover have "expiredAlert \<in> set (alerts ?v)"
    using expiredAlert_in_verifyAlerts[OF ex assms(7)] by (simp add: licensedVerdict_def Let_def)
  ultimately show ?thesis
    using verify_with_license[OF assms(1-6)] by (simp add: expiredAlert_def e_acute_def)
qed

theorem verify_expired_paid_witness:
  "\<exists>v. handleLicenseVerify exLimits exLicensedDb (8 * msPerDay) exReq = (exLicensedDb, Json v)
       \<and> \<not> valid v
       \<and> \<lparr>alert_type = Modal,
           title = ''Licence Expir'' @ [CHR 0xC3, CHR 0xA9] @ ''e'',
           message = ''Votre licence a expir'' @ [CHR 0xC3, CHR 0xA9]
                     @ ''. Veuillez renouveler votre abonnement.'',
           severity = Critical,
           dismissible = False\<rparr> \<in> set (alerts v)"
  using verify_expired_paid[of exReq "''a@b.c''" "''dev''" exLicensedDb "''u1''" exUser "[]"
      exLicense "8 * msPerDay" exLimits]
  by (auto simp add: exReq_def exLicensedDb_def exDb_def exLicense_def
      exUser_def getDocs_users_def licensePathId_def or_str_def msPerDay_def)

text \<open>
  C5, where the code departs from it. For a license document without a stored message
  count, the verdict reports \<open>messageCount = 0\<close> and the stored limit, and
  \<open>canSendMessage\<close> is false whatever \<open>valid\<close>, the limit and the expiry are: the
  comparison reads the stored count without the default the other uses of it have.
\<close>

theorem verify_canSendMessage_missing_count:
  assumes "req_email req = Some e" "e \<noteq> []" "req_deviceId req = Some dv" "dv \<noteq> []"
    and "getDocs_users d e = (docId, userData) # rest"
    and "licenses d (licensePathId docId userData) = Some licenseData"
    and "lic_messageCount licenseData = None"
  shows "\<exists>v. handleLicenseVerify planLimit d now req = (d, Json v)
           \<and> messageCount v = 0
           \<and> messageLimit v = or_zero (lic_messageLimit licenseData)
           \<and> \<not> canSendMessage v"
  using verify_with_license[OF assms(1-6)] assms(7)
  by (simp add: licensedVerdict_def Let_def js_lt_def or_zero_def)

theorem verify_canSendMessage_missing_count_witness:
  "\<not> isLicenseExpired (lic_expiresAt exNoCountLicense) 1000
   \<and> handleLicenseVerify exLimits exNoCountDb 1000 exReq =
       (exNoCountDb,
        Json \<lparr>valid = True, plan = ''Pro'', messageLimit = 100, messageCount = 0,
              canSendMessage = False, expiresAt = 7 * msPerDay, warnings = [],
              isBanned = False, isSuspended = False,
              alerts = [expiresSoonAlert 7], maintenanceMode = False\<rparr>)"
proof -
  have s: "snd (handleLicenseVerify exLimits exNoCountDb 1000 exReq) =
        Json \<lparr>valid = True, plan = ''Pro'', messageLimit = 100, messageCount = 0,
              canSendMessage = False, expiresAt = 7 * msPerDay, warnings = [],
              isBanned = False, isSuspended = False,
              alerts = [expiresSoonAlert 7], maintenanceMode = False\<rparr>"
    by code_simp
  have ne: "\<not> isLicenseExpired (lic_expiresAt exNoCountLicense) 1000"
    by (simp add: isLicenseExpired_def exNoCountLicense_def exLicense_def msPerDay_def)
  from verify_canSendMessage_missing_count[of exReq "''a@b.c''" "''dev''" exNoCountDb "''u1''"
      exUser "[]" exNoCountLicense exLimits 1000]
  have "fst (handleLicenseVerify exLimits exNoCountDb 1000 exReq) = exNoCountDb"
    by (auto simp add: exReq_def exNoCountDb_def exDb_def exNoCountLicense_def exLicense_def
        exUser_def getDocs_users_def licensePathId_def or_str_def)
  then show ?thesis using s ne by (simp add: prod_eq_iff)
qed

text \<open>
  C9 as stated fails: the handler reads the clock on each call, so a second call on
  the store the first one returned, 25 ms later, gives another verdict (the
  synthesized expiry is 365 days after the call).
\<close>

theorem verify_twice_counterexample:
  "map_option expiresAt (verdictOf (handleLicenseVerify exLimits exDb 1000 exReq))
     = Some 31536001000
   \<and> map_option expiresAt
       (verdictOf (handleLicenseVerify exLimits
                     (fst (handleLicenseVerify exLimits exDb 1000 exReq)) 1025 exReq))
     = Some 31536001025"
  by (simp add: verify_keeps_store verdictOf_def handleLicenseVerify_def exReq_def exDb_def
      exUser_def getDocs_users_def licensePathId_def or_str_def truthy_str_def freeVerdict_def)

text \<open>
  C9, amended. Verification returns the store it was given, and its response is
  determined by the request, the clock reading, and four parts of the store: the
  first user with the request's email, that user's license document, that user's
  unread warnings and the maintenance document. Two stores that agree on these four
  give the same response at the same clock reading; in particular a second call on
  the returned store at the same reading repeats the first response.
\<close>

theorem verify_deterministic:
  assumes "req_email req = Some e"
    and "getDocs_users d e = (docId, userData) # rest"
    and "getDocs_users d' e = (docId, userData) # rest'"
    and "licenses d' (licensePathId docId userData) = licenses d (licensePathId docId userData)"
    and "getDocs_warnings d' (licensePathId docId userData)
           = getDocs_warnings d (licensePathId docId userData)"
    and "config_maintenance d' = config_maintenance d"
  shows "fst (handleLicenseVerify planLimit d now req) = d
         \<and> snd (handleLicenseVerify planLimit d' now req)
             = snd (handleLicenseVerify planLimit d now req)
         \<and> handleLicenseVerify planLimit (fst (handleLicenseVerify planLimit d now req)) now req
             = handleLicenseVerify planLimit d now req"
proof -
  have m: "getMaintenanceMode d' = getMaintenanceMode d"
    using assms(6) by (simp add: getMaintenanceMode_def)
  have "snd (handleLicenseVerify planLimit d' now req)
          = snd (handleLicenseVerify planLimit d now req)"
    using assms(1-5) m
    by (simp add: handleLicenseVerify_def or_str_def truthy_str_def freeVerdict_def
        licensedVerdict_def Let_def split: option.splits)
  then show ?thesis by (simp add: verify_keeps_store)
qed

theorem verify_deterministic_witness:
  "licenseKeys exOtherDb \<noteq> licenseKeys exLicensedDb
   \<and> snd (handleLicenseVerify exLimits exOtherDb 1000 exReq)
       = snd (handleLicenseVerify exLimits exLicensedDb 1000 exReq)
   \<and> snd (handleLicenseVerify exLimits exLicensedDb 1000 exReq) =
       Json \<lparr>valid = True, plan = ''Pro'', messageLimit = 100, messageCount = 5,
             canSendMessage = True, expiresAt = 7 * msPerDay, warnings = [],
             isBanned = False, isSuspended = False,
             alerts = [expiresSoonAlert 7], maintenanceMode = False\<rparr>
   \<and> handleLicenseVerify exLimits (fst (handleLicenseVerify exLimits exLicensedDb 1000 exReq)) 1000 exReq
       = handleLicenseVerify exLimits exLicensedDb 1000 exReq"
proof -
  have s: "snd (handleLicenseVerify exLimits exLicensedDb 1000 exReq) =
       Json \<lparr>valid = True, plan = ''Pro'', messageLimit = 100, messageCount = 5,
             canSendMessage = True, expiresAt = 7 * msPerDay, warnings = [],
             isBanned = False, isSuspended = False,
             alerts = [expiresSoonAlert 7], maintenanceMode = False\<rparr>"
    by code_simp
  have k: "licenseKeys exOtherDb \<noteq> licenseKeys exLicensedDb"
    by (simp add: exOtherDb_def exLicensedDb_def exDb_def)
  have u: "getDocs_users exLicensedDb ''a@b.c'' = [(''u1'', exUser)]"
    by (simp add: getDocs_users_def exLicensedDb_def exDb_def exUser_def)
  have u': "getDocs_users exOtherDb ''a@b.c'' = [(''u1'', exUser)]"
    by (simp add: getDocs_users_def exOtherDb_def exUser_def exUser2_def)
  have l: "licenses exOtherDb (licensePathId ''u1'' exUser)
             = licenses exLicensedDb (licensePathId ''u1'' exUser)"
    by (simp add: licensePathId_def or_str_def exUser_def exOtherDb_def exLicensedDb_def exDb_def)
  have w: "getDocs_warnings exOtherDb (licensePathId ''u1'' exUser)
             = getDocs_warnings exLicensedDb (licensePathId ''u1'' exUser)"
    by (simp add: getDocs_warnings_def exOtherDb_def exLicensedDb_def exDb_def noWarnings_def)
  have c: "config_maintenance exOtherDb = config_maintenance exLicensedDb"
    by (simp add: exOtherDb_def exLicensedDb_def exDb_def)
  have q: "req_email exReq = Some ''a@b.c''"
    by (simp add: exReq_def)
  from verify_deterministic[OF q u u' l w c, of exLimits 1000]
  show ?thesis using s k by simp
qed

lemma verifyAlerts_banner:
  "\<not> ex \<Longrightarrow> 0 < dr \<Longrightarrow> dr \<le> 7 \<Longrightarrow>
     expiresSoonAlert dr \<in> set (verifyAlerts userData licenseData ex dr)"
  by (simp add: verifyAlerts_def)

lemma verifyAlerts_no_banner:
  "dr \<le> 0 \<Longrightarrow> a \<in> set (verifyAlerts userData licenseData ex dr) \<Longrightarrow> alert_type a \<noteq> Banner"
  by (auto simp add: verifyAlerts_def expiredAlert_def bannedAlert_def suspendedAlert_def
      split: if_splits)

text \<open>
  C7. In the verdict for a user with a license document: when the license is not
  expired and the days remaining are between 1 and 7 (7 included), the alerts contain
  the warning banner, dismissible, with the number of days in its message; when the
  days remaining are 0 or negative, no alert is a banner.
\<close>

theorem verify_expiry_banner:
  assumes "req_email req = Some e" "e \<noteq> []" "req_deviceId req = Some dv" "dv \<noteq> []"
    and "getDocs_users d e = (docId, userData) # rest"
    and "licenses d (licensePathId docId userData) = Some licenseData"
    and "dr = getDaysRemaining (lic_expiresAt licenseData) now"
  shows "\<exists>v. handleLicenseVerify planLimit d now req = (d, Json v)
           \<and> (\<not> isLicenseExpired (lic_expiresAt licenseData) now \<and> 0 < dr \<and> dr \<le> 7 \<longrightarrow>
                expiresSoonAlert dr \<in> set (alerts v)
                \<and> alert_type (expiresSoonAlert dr) = Banner
                \<and> severity (expiresSoonAlert dr) = Warning
                \<and> dismissible (expiresSoonAlert dr)
                \<and> message (expiresSoonAlert dr) =
                    ''Votre licence expire dans '' @ string_of_int dr @ '' jour(s).'')
           \<and> (dr \<le> 0 \<longrightarrow> (\<forall>a \<in> set (alerts v). alert_type a \<noteq> Banner))"
proof -
  let ?v = "licensedVerdict planLimit d now (licensePathId docId userData) userData licenseData"
  have al: "alerts ?v = verifyAlerts userData licenseData
                          (isLicenseExpired (lic_expiresAt licenseData) now) dr"
    using assms(7) by (simp add: licensedVerdict_def Let_def)
  have "\<not> isLicenseExpired (lic_expiresAt licenseData) now \<and> 0 < dr \<and> dr \<le> 7 \<longrightarrow>
          expiresSoonAlert dr \<in> set (alerts ?v)"
    by (simp add: al verifyAlerts_banner)
  moreover have "dr \<le> 0 \<longrightarrow> (\<forall>a \<in> set (alerts ?v). alert_type a \<noteq> Banner)"
    using verifyAlerts_no_banner by (auto simp add: al)
  ultimately show ?thesis
    using verify_with_license[OF assms(1-6)] by (simp add: expiresSoonAlert_def)
qed

theorem verify_expiry_banner_witness:
  "getDaysRemaining (lic_expiresAt exLicense) 0 = 7
   \<and> \<not> isLicenseExpired (lic_expiresAt exLicense) 0
   \<and> (\<exists>v. handleLicenseVerify exLimits exLicensedDb 0 exReq = (exLicensedDb, Json v)
         \<and> expiresSoonAlert 7 \<in> set (alerts v)
         \<and> message (expiresSoonAlert 7) = ''Votre licence expire dans 7 jour(s).'')
   \<and> getDaysRemaining (lic_expiresAt exLicense) (7 * msPerDay) = 0
   \<and> (\<exists>v. handleLicenseVerify exLimits exLicensedDb (7 * msPerDay) exReq = (exLicensedDb, Json v)
         \<and> (\<forall>a \<in> set (alerts v). alert_type a \<noteq> Banner))"
proof -
  have d7: "getDaysRemaining (lic_expiresAt exLicense) 0 = 7"
    by (simp add: getDaysRemaining_def exLicense_def msPerDay_def)
  have d0: "getDaysRemaining (lic_expiresAt exLicense) (7 * msPerDay) = 0"
    by (simp add: getDaysRemaining_def exLicense_def msPerDay_def)
  have ne: "\<not> isLicenseExpired (lic_expiresAt exLicense) 0"
    by (simp add: isLicenseExpired_def exLicense_def msPerDay_def)
  have u: "getDocs_users exLicensedDb ''a@b.c'' = [(''u1'', exUser)]"
    by (simp add: getDocs_users_def exLicensedDb_def exDb_def exUser_def)
  have l: "licenses exLicensedDb (licensePathId ''u1'' exUser) = Some exLicense"
    by (simp add: licensePathId_def or_str_def exLicensedDb_def exDb_def exUser_def)
  have r: "req_email exReq = Some ''a@b.c''" "req_deviceId exReq = Some ''dev''"
    by (simp_all add: exReq_def)
  have s7: "string_of_int 7 = ''7''"
    by code_simp
  from verify_expiry_banner[OF r(1) _ r(2) _ u l d7[symmetric], of exLimits]
  have a: "\<exists>v. handleLicenseVerify exLimits exLicensedDb 0 exReq = (exLicensedDb, Json v)
         \<and> expiresSoonAlert 7 \<in> set (alerts v)
         \<and> message (expiresSoonAlert 7) = ''Votre licence expire dans 7 jour(s).''"
    using ne s7 by auto
  from verify_expiry_banner[OF r(1) _ r(2) _ u l d0[symmetric], of exLimits]
  have b: "\<exists>v. handleLicenseVerify exLimits exLicensedDb (7 * msPerDay) exReq = (exLicensedDb, Json v)
         \<and> (\<forall>a \<in> set (alerts v). alert_type a \<noteq> Banner)"
    by auto
  show ?thesis using d7 d0 ne a b by simp
qed

section \<open>Properties of handleLicenseActivate and of the admin checks\<close>

text \<open>
  C6. When the request names an existing user and the matched active key has
  \<open>usedBy\<close> set to a (non-empty) user id other than the requester's document id, the
  activation is refused with status 403 and the store is returned unchanged.
\<close>

theorem activate_forbidden:
  assumes "req_email req = Some e" "e \<noteq> []"
    and "req_licenseKey req = Some k" "k \<noteq> []"
    and "req_deviceId req = Some dv" "dv \<noteq> []"
    and "getDocs_users d e = (userId, userData) # rest"
    and "getDocs_licenseKeys d (cleanLicenseKey toUpperCase k) = (keyId, licenseKeyData) # rest'"
    and "key_usedBy licenseKeyData = Some other" "other \<noteq> []" "other \<noteq> userId"
  shows "handleLicenseActivate toUpperCase d now req =
           (d, Failure 403 None ''This license key is already in use by another account'')"
  using assms by (simp add: handleLicenseActivate_def truthy_str_def or_str_def)

theorem activate_forbidden_witness:
  "handleLicenseActivate asciiUpperCase exUsedKeyDb 1000 exReq =
     (exUsedKeyDb, Failure 403 None ''This license key is already in use by another account'')"
proof -
  have c: "cleanLicenseKey asciiUpperCase ''abcd-1234'' = ''ABCD1234''"
    by code_simp
  have u: "getDocs_users exUsedKeyDb ''a@b.c'' = [(''u1'', exUser)]"
    by (simp add: getDocs_users_def exUsedKeyDb_def exDb_def exUser_def)
  have k: "getDocs_licenseKeys exUsedKeyDb (cleanLicenseKey asciiUpperCase ''abcd-1234'')
             = [(''k1'', exUsedKey)]"
    by (simp add: c getDocs_licenseKeys_def exUsedKeyDb_def exDb_def exUsedKey_def exKey_def)
  have o: "key_usedBy exUsedKey = Some ''u2''"
    by (simp add: exUsedKey_def)
  show ?thesis
    using activate_forbidden[of exReq "''a@b.c''" "''abcd-1234''" "''dev''" exUsedKeyDb "''u1''"
        exUser "[]" asciiUpperCase "''k1''" exUsedKey "[]" "''u2''" 1000] u k o
    by (simp add: exReq_def)
qed

lemma update_first_found:
  "(i, u) \<in> set us \<Longrightarrow> \<exists>us'. update_first i upd us = Some us'"
  by (induction us) auto

lemma getDocs_users_member:
  assumes "getDocs_users d e = (i, u) # rest"
  shows "(i, u) \<in> set (users d)"
proof -
  have "(i, u) \<in> set (filter (\<lambda>(i, u). user_email u = e) (users d))"
    using assms by (simp add: getDocs_users_def)
  then show ?thesis by simp
qed

text \<open>
  C2, where the code departs from it. An activation with a key whose \<open>usedBy\<close> is
  unset and whose expiry is a valid date succeeds, and the license keys are afterwards
  exactly what they were: \<open>usedBy\<close> is not set, so the same key can be redeemed again
  by another account.
\<close>

theorem activate_leaves_usedBy_unset:
  assumes "req_email req = Some e" "e \<noteq> []"
    and "req_licenseKey req = Some k" "k \<noteq> []"
    and "req_deviceId req = Some dv" "dv \<noteq> []"
    and "getDocs_users d e = (userId, userData) # rest"
    and "getDocs_licenseKeys d (cleanLicenseKey toUpperCase k) = (keyId, licenseKeyData) # rest'"
    and "key_usedBy licenseKeyData = None"
    and "newDate (key_expiresAt licenseKeyData) = Some expAt"
  shows "\<exists>d' v. handleLicenseActivate toUpperCase d now req = (d', Json v)
           \<and> valid v
           \<and> licenseKeys d' = licenseKeys d"
proof -
  obtain us' where us': "update_first userId
      (\<lambda>u. u\<lparr>user_isBanned := Some False, user_isSuspended := Some False\<rparr>) (users d) = Some us'"
    using update_first_found[OF getDocs_users_member[OF assms(7)]] by blast
  show ?thesis
    using assms us'
    by (cases "licenses d userId")
      (simp_all add: handleLicenseActivate_def truthy_str_def or_str_def Let_def
        updateDoc_license_def setDoc_license_def updateDoc_user_def activatedVerdict_def)
qed

theorem activate_leaves_usedBy_unset_witness:
  "map_option valid (verdictOf (handleLicenseActivate asciiUpperCase exTwoUsersDb 1000 exReq))
     = Some True
   \<and> map (key_usedBy \<circ> snd)
       (licenseKeys (fst (handleLicenseActivate asciiUpperCase exTwoUsersDb 1000 exReq))) = [None]
   \<and> map_option valid
       (verdictOf (handleLicenseActivate asciiUpperCase
                     (fst (handleLicenseActivate asciiUpperCase exTwoUsersDb 1000 exReq))
                     2000 exReq2))
     = Some True"
proof -
  let ?d1 = "fst (handleLicenseActivate asciiUpperCase exTwoUsersDb 1000 exReq)"
  have c: "cleanLicenseKey asciiUpperCase ''abcd-1234'' = ''ABCD1234''"
    by code_simp
  have u: "getDocs_users exTwoUsersDb ''a@b.c'' = [(''u1'', exUser)]"
    by (simp add: getDocs_users_def exTwoUsersDb_def exDb_def exUser_def exUser2_def)
  have k: "getDocs_licenseKeys exTwoUsersDb (cleanLicenseKey asciiUpperCase ''abcd-1234'')
             = [(''k1'', exKey)]"
    by (simp add: c getDocs_licenseKeys_def exTwoUsersDb_def exDb_def exKey_def)
  have n: "key_usedBy exKey = None"
    by (simp add: exKey_def)
  have t: "newDate (key_expiresAt exKey) = Some (30 * msPerDay)"
    by (simp add: newDate_def exKey_def msPerDay_def maxTimeValue_def)
  have q: "req_email exReq = Some ''a@b.c''" "req_licenseKey exReq = Some ''abcd-1234''"
    "req_deviceId exReq = Some ''dev''"
    by (simp_all add: exReq_def)
  from activate_leaves_usedBy_unset[OF q(1) _ q(2) _ q(3) _ u k n t, of 1000]
  obtain d' v where r: "handleLicenseActivate asciiUpperCase exTwoUsersDb 1000 exReq = (d', Json v)"
    and v: "valid v" and ks: "licenseKeys d' = licenseKeys exTwoUsersDb"
    by auto
  have first: "map_option valid (verdictOf (handleLicenseActivate asciiUpperCase exTwoUsersDb 1000 exReq))
     = Some True"
    using r v by (simp add: verdictOf_def)
  have keys: "map (key_usedBy \<circ> snd) (licenseKeys ?d1) = [None]"
    using r ks by (simp add: exTwoUsersDb_def exDb_def exKey_def)
  have second: "map_option valid (verdictOf (handleLicenseActivate asciiUpperCase ?d1 2000 exReq2))
     = Some True"
    by code_simp
  show ?thesis using first keys second by simp
qed

text \<open>
  C8. Both admin checks always return a value and never an exception. The token check
  answers \<open>isAdmin = False\<close>, with no uid and no email, when the authorization header
  is missing, empty, not a bearer credential, or when the identity provider rejects
  the token; the user check answers \<open>False\<close> when the provider fails, for instance
  because the user does not exist.
\<close>

theorem admin_checks_fail_closed:
  "(\<exists>r. verifyAdminToken verifyIdToken authorization = Inr r)
   \<and> (authorization = None \<or> authorization = Some []
        \<or> (\<exists>h. authorization = Some h \<and> take 7 h \<noteq> ''Bearer '')
        \<or> (\<exists>h err. authorization = Some h \<and> verifyIdToken (drop 7 h) = Inl err)
       \<longrightarrow> verifyAdminToken verifyIdToken authorization
             = Inr \<lparr>isAdmin = False, uid = None, email = None\<rparr>)
   \<and> (\<exists>b. isAdminUser getUser u = Inr b)
   \<and> ((\<exists>err. getUser u = Inl err) \<longrightarrow> isAdminUser getUser u = Inr False)"
proof -
  have "\<exists>r. verifyAdminToken verifyIdToken authorization = Inr r"
    by (cases "verifyAdminToken_try verifyIdToken authorization")
      (simp_all add: verifyAdminToken_def)
  moreover have "authorization = None \<or> authorization = Some []
        \<or> (\<exists>h. authorization = Some h \<and> take 7 h \<noteq> ''Bearer '')
        \<or> (\<exists>h err. authorization = Some h \<and> verifyIdToken (drop 7 h) = Inl err)
       \<longrightarrow> verifyAdminToken verifyIdToken authorization
             = Inr \<lparr>isAdmin = False, uid = None, email = None\<rparr>"
    by (auto simp add: verifyAdminToken_def verifyAdminToken_try_def)
  moreover have "\<exists>b. isAdminUser getUser u = Inr b"
    by (cases "isAdminUser_try getUser u") (auto simp add: isAdminUser_def)
  moreover have "(\<exists>err. getUser u = Inl err) \<longrightarrow> isAdminUser getUser u = Inr False"
    by (auto simp add: isAdminUser_def isAdminUser_try_def)
  ultimately show ?thesis by blast
qed

theorem admin_checks_fail_closed_witness:
  "verifyAdminToken exVerifyIdToken (Some ''Bearer bad'')
     = Inr \<lparr>isAdmin = False, uid = None, email = None\<rparr>
   \<and> isAdminUser exGetUser ''nobody'' = Inr False"
proof -
  have t: "exVerifyIdToken (drop 7 ''Bearer bad'') = Inl (AuthError ''auth/argument-error'')"
    by (simp add: exVerifyIdToken_def)
  have g: "exGetUser ''nobody'' = Inl (AuthError ''auth/user-not-found'')"
    by (simp add: exGetUser_def)
  from admin_checks_fail_closed[of exVerifyIdToken "Some ''Bearer bad''" exGetUser "''nobody''"]
  show ?thesis using t g by blast
qed

end
